theory Spec2Isabelle
  imports Main "HOL-Library.AList" "HOL-Library.Sublist"
begin

section \<open>JSON values and Python dictionaries\<close>

text \<open>
  The settings of XClamAV are what \<^verbatim>\<open>json.load\<close> returns: \<^verbatim>\<open>None\<close>, booleans, integers,
  strings, lists and dictionaries with string keys. Floating-point numbers are outside this
  model. A Python \<^verbatim>\<open>dict\<close> is an association list in insertion order; \<^verbatim>\<open>d[k] = v\<close> is
  \<^const>\<open>AList.update\<close> (it overwrites in place, or appends a new key at the end) and
  \<^verbatim>\<open>d.get(k)\<close> is \<^const>\<open>map_of\<close>.
\<close>

datatype json =
    JNull
  | JBool bool
  | JInt int
  | JStr string
  | JList "json list"
  | JDict "(string \<times> json) list"

type_synonym dict = "(string \<times> json) list"


text \<open>The exceptions of Python that the modelled code can meet.\<close>

datatype error =
    AttributeError
  | TypeError
  | OSError
  | JSONDecodeError
  | OverflowError
  | ValueError

section \<open>The settings store (class XClamAVSettings)\<close>

text \<open>
  \<^verbatim>\<open>default_settings\<close> is the dictionary literal of \<^verbatim>\<open>load_settings\<close>. The one entry that is
  not a constant is \<^verbatim>\<open>quarantine_path\<close>, the text of
  \<^verbatim>\<open>Path.home() / ".local" / "share" / "xclamav" / "quarantine"\<close>; the home directory
  is a parameter (its text has no trailing slash, but for the root directory).
\<close>

definition default_quarantine_path :: "string \<Rightarrow> string" where
  "default_quarantine_path home =
     (if home = ''/'' then [] else home) @ ''/.local/share/xclamav/quarantine''"

definition default_settings :: "string \<Rightarrow> dict" where
  "default_settings home =
     [(''scan_options'', JDict
         [(''scan_archives'', JBool True),
          (''scan_pdf'', JBool True),
          (''scan_ole2'', JBool True),
          (''scan_html'', JBool True),
          (''scan_pe'', JBool True),
          (''scan_elf'', JBool True),
          (''detect_pua'', JBool False),
          (''scan_hidden'', JBool False),
          (''max_file_size'', JInt 20),
          (''max_recursion'', JInt 15)]),
      (''real_time'', JDict
         [(''enabled'', JBool False),
          (''watch_downloads'', JBool True),
          (''watch_home'', JBool False),
          (''watch_removable'', JBool True),
          (''prevention_mode'', JBool False)]),
      (''updates'', JDict
         [(''auto_update'', JBool True),
          (''update_frequency'', JStr ''daily''),
          (''check_on_startup'', JBool True)]),
      (''notifications'', JDict
         [(''show_scan_complete'', JBool True),
          (''show_threats_found'', JBool True),
          (''show_update_complete'', JBool False),
          (''system_tray'', JBool True)]),
      (''quarantine'', JDict
         [(''auto_quarantine'', JBool True),
          (''quarantine_path'', JStr (default_quarantine_path home)),
          (''retention_days'', JInt 30)]),
      (''interface'', JDict
         [(''start_minimized'', JBool False),
          (''close_to_tray'', JBool True),
          (''dark_mode'', JStr ''auto''),
          (''language'', JStr ''auto'')]),
      (''exclusions'', JDict
         [(''paths'', JList []),
          (''extensions'', JList [JStr ''.tmp'', JStr ''.log'']),
          (''processes'', JList [])]),
      (''advanced'', JDict
         [(''scan_threads'', JInt 4),
          (''memory_limit'', JInt 512),
          (''database_mirror'', JStr ''auto''),
          (''log_level'', JStr ''info'')])]"

text \<open>
  \<^verbatim>\<open>_merge_settings(default, loaded)\<close>: \<open>result\<close> starts as the copy of \<open>default\<close> and the
  loop runs over \<^verbatim>\<open>loaded.items()\<close>. A key of \<open>result\<close> whose value is a dictionary, met
  with a loaded dictionary, is merged recursively; in every other case the loaded value
  is stored.
\<close>

fun merge_settings :: "dict \<Rightarrow> dict \<Rightarrow> dict" where
  "merge_settings result [] = result"
| "merge_settings result ((key, JDict l) # rest) =
     merge_settings
       (case map_of result key of
          Some (JDict d) \<Rightarrow> AList.update key (JDict (merge_settings d l)) result
        | _ \<Rightarrow> AList.update key (JDict l) result)
       rest"
| "merge_settings result ((key, v) # rest) =
     merge_settings (AList.update key v result) rest"

text \<open>
  The settings file on disk: absent; present but not readable (\<^verbatim>\<open>open\<close> raises);
  readable but not JSON (\<^verbatim>\<open>json.load\<close> raises); or the text of a JSON value.
  \<^verbatim>\<open>json.dump\<close> followed by \<^verbatim>\<open>json.load\<close> gives back the value written, so a file
  written by the program is the document it was given.
\<close>

datatype cfile = Missing | Unreadable | Malformed | Doc json

datatype message =
    Error_loading_settings error
  | Error_saving_settings error

record env =
  config_file :: cfile
  writable :: bool
  out :: "message list"

text \<open>
  The body of the \<^verbatim>\<open>try\<close> of \<^verbatim>\<open>load_settings\<close>: open, parse, merge. A loaded value that
  is not a dictionary has no \<^verbatim>\<open>items\<close>.
\<close>

fun read_config :: "string \<Rightarrow> cfile \<Rightarrow> error + dict" where
  "read_config home Missing = Inl OSError"
| "read_config home Unreadable = Inl OSError"
| "read_config home Malformed = Inl JSONDecodeError"
| "read_config home (Doc (JDict loaded)) = Inr (merge_settings (default_settings home) loaded)"
| "read_config home (Doc _) = Inl AttributeError"

definition load_settings :: "string \<Rightarrow> env \<Rightarrow> dict \<times> env" where
  "load_settings home d =
     (if config_file d \<noteq> Missing then
        (case read_config home (config_file d) of
           Inr merged \<Rightarrow> (merged, d)
         | Inl e \<Rightarrow> (default_settings home, d\<lparr>out := out d @ [Error_loading_settings e]\<rparr>))
      else (default_settings home, d))"


text \<open>
  \<^verbatim>\<open>get(category, key=None)\<close>. The result comes with the settings mapping as the call
  leaves it. \<^verbatim>\<open>self.settings.get(category, {})\<close> may be a value that is not a dictionary,
  and such a value has no \<^verbatim>\<open>get\<close>.
\<close>

definition category_or_empty :: "dict \<Rightarrow> string \<Rightarrow> json" where
  "category_or_empty s category = (case map_of s category of None \<Rightarrow> JDict [] | Some v \<Rightarrow> v)"

definition get_setting :: "dict \<Rightarrow> string \<Rightarrow> string option \<Rightarrow> (error + json) \<times> dict" where
  "get_setting s category key =
     (case key of
        None \<Rightarrow> (Inr (category_or_empty s category), s)
      | Some k \<Rightarrow>
          (case category_or_empty s category of
             JDict c \<Rightarrow> (Inr (case map_of c k of None \<Rightarrow> JNull | Some v \<Rightarrow> v), s)
           | _ \<Rightarrow> (Inl AttributeError, s)))"


text \<open>One turn of the loop of \<^verbatim>\<open>_merge_settings\<close>, as a function of its own.\<close>

definition is_dict :: "json \<Rightarrow> bool" where
  "is_dict v = (case v of JDict _ \<Rightarrow> True | _ \<Rightarrow> False)"

definition merge_entry :: "dict \<Rightarrow> string \<Rightarrow> json \<Rightarrow> dict" where
  "merge_entry result key v =
     (case (map_of result key, v) of
        (Some (JDict d), JDict l) \<Rightarrow> AList.update key (JDict (merge_settings d l)) result
      | _ \<Rightarrow> AList.update key v result)"

section \<open>The scanner command (class ClamAVWrapper)\<close>

text \<open>
  The truth value Python gives a JSON value in a condition, and the text \<^verbatim>\<open>str\<close> and
  \<^verbatim>\<open>repr\<close> give it (an f-string formats a value with \<^verbatim>\<open>str\<close>). Characters are the code
  points below 256.
\<close>

fun truthy :: "json \<Rightarrow> bool" where
  "truthy JNull = False"
| "truthy (JBool b) = b"
| "truthy (JInt n) = (n \<noteq> 0)"
| "truthy (JStr s) = (s \<noteq> [])"
| "truthy (JList xs) = (xs \<noteq> [])"
| "truthy (JDict kvs) = (kvs \<noteq> [])"

fun digits :: "nat \<Rightarrow> string" where
  "digits n = (if n < 10 then [''0123456789'' ! n] else digits (n div 10) @ [''0123456789'' ! (n mod 10)])"

definition str_int :: "int \<Rightarrow> string" where
  "str_int i = (if i < 0 then CHR ''-'' # digits (nat (- i)) else digits (nat i))"

definition hex_digit :: "nat \<Rightarrow> char" where
  "hex_digit n = ''0123456789abcdef'' ! n"

definition printable :: "char \<Rightarrow> bool" where
  "printable c = (let n = of_char c :: nat in
     (32 \<le> n \<and> n < 127) \<or> (161 \<le> n \<and> n \<noteq> 173))"

definition repr_char :: "char \<Rightarrow> char \<Rightarrow> string" where
  "repr_char quote c =
     (if c = quote \<or> c = CHR 0x5C then [CHR 0x5C, c]
      else if c = CHR 0x09 then [CHR 0x5C, CHR ''t'']
      else if c = CHR 0x0A then [CHR 0x5C, CHR ''n'']
      else if c = CHR 0x0D then [CHR 0x5C, CHR ''r'']
      else if printable c then [c]
      else [CHR 0x5C, CHR ''x'', hex_digit (of_char c div 16), hex_digit (of_char c mod 16)])"

definition repr_str :: "string \<Rightarrow> string" where
  "repr_str s =
     (let quote = (if CHR 0x27 \<in> set s \<and> CHR 0x22 \<notin> set s then CHR 0x22 else CHR 0x27)
      in [quote] @ concat (map (repr_char quote) s) @ [quote])"

fun join :: "string \<Rightarrow> string list \<Rightarrow> string" where
  "join sep [] = []"
| "join sep [x] = x"
| "join sep (x # y # ys) = x @ sep @ join sep (y # ys)"

fun py_repr :: "json \<Rightarrow> string" where
  "py_repr JNull = ''None''"
| "py_repr (JBool b) = (if b then ''True'' else ''False'')"
| "py_repr (JInt i) = str_int i"
| "py_repr (JStr s) = repr_str s"
| "py_repr (JList xs) = ''['' @ join '', '' (map py_repr xs) @ '']''"
| "py_repr (JDict kvs) = ''{'' @ join '', '' (map (\<lambda>kv. repr_str (fst kv) @ '': '' @ py_repr (snd kv)) kvs) @ ''}''"

fun py_str :: "json \<Rightarrow> string" where
  "py_str (JStr s) = s"
| "py_str v = py_repr v"

text \<open>\<^verbatim>\<open>d.get(k, default)\<close> on the options dictionary.\<close>

definition opt_get :: "dict \<Rightarrow> string \<Rightarrow> json \<Rightarrow> json" where
  "opt_get d k dflt = (case map_of d k of None \<Rightarrow> dflt | Some v \<Rightarrow> v)"

text \<open>
  \<^verbatim>\<open>build_scan_command(path)\<close>: the list \<open>cmd\<close> grows by one \<^verbatim>\<open>append\<close> per statement of
  the source, in the source's order.
\<close>

definition build_scan_command :: "dict \<Rightarrow> string \<Rightarrow> string list" where
  "build_scan_command scan_options path =
     (let cmd = [''clamscan''];
          cmd = cmd @ [if truthy (opt_get scan_options ''scan_archives'' (JBool True))
                       then ''--scan-archive=yes'' else ''--scan-archive=no''];
          cmd = cmd @ [if truthy (opt_get scan_options ''scan_pdf'' (JBool True))
                       then ''--scan-pdf=yes'' else ''--scan-pdf=no''];
          cmd = cmd @ [if truthy (opt_get scan_options ''scan_ole2'' (JBool True))
                       then ''--scan-ole2=yes'' else ''--scan-ole2=no''];
          cmd = cmd @ [if truthy (opt_get scan_options ''scan_html'' (JBool True))
                       then ''--scan-html=yes'' else ''--scan-html=no''];
          cmd = cmd @ [if truthy (opt_get scan_options ''scan_pe'' (JBool True))
                       then ''--scan-pe=yes'' else ''--scan-pe=no''];
          cmd = cmd @ [if truthy (opt_get scan_options ''scan_elf'' (JBool True))
                       then ''--scan-elf=yes'' else ''--scan-elf=no''];
          cmd = cmd @ [if truthy (opt_get scan_options ''detect_pua'' (JBool False))
                       then ''--detect-pua=yes'' else ''--detect-pua=no''];
          cmd = (if \<not> truthy (opt_get scan_options ''scan_hidden'' (JBool False))
                 then cmd @ [''--exclude-dir=^'' @ [CHR 0x5C, CHR ''.'']] else cmd);
          max_size = opt_get scan_options ''max_file_size'' (JInt 20);
          cmd = cmd @ [''--max-filesize='' @ py_str max_size @ ''M''];
          max_recursion = opt_get scan_options ''max_recursion'' (JInt 15);
          cmd = cmd @ [''--max-dir-recursion='' @ py_str max_recursion];
          cmd = cmd @ [''--recursive'', ''--infected'', ''--bell'', path]
      in cmd)"

text \<open>Names for stating the claim: the exclusion flag, an option's truth, a switch.\<close>

definition exclude_hidden :: string where
  "exclude_hidden = ''--exclude-dir=^'' @ [CHR 0x5C, CHR ''.'']"

definition toggle :: "dict \<Rightarrow> string \<Rightarrow> bool \<Rightarrow> bool" where
  "toggle scan_options name dflt = truthy (opt_get scan_options name (JBool dflt))"

definition yes_no :: "string \<Rightarrow> bool \<Rightarrow> string" where
  "yes_no flag b = flag @ (if b then ''=yes'' else ''=no'')"

section \<open>Paths and the file system\<close>

text \<open>
  A path is the list of its components below the root, as \<^verbatim>\<open>pathlib\<close> holds it;
  \<^verbatim>\<open>str(path)\<close> joins them with slashes. \<^verbatim>\<open>path / text\<close> splits the text at slashes and
  drops empty components and single dots; a text that starts with a slash replaces the
  path.
\<close>

type_synonym path = "string list"

definition path_str :: "path \<Rightarrow> string" where
  "path_str p = (if p = [] then ''/'' else concat (map (\<lambda>c. CHR ''/'' # c) p))"

fun split_on :: "char \<Rightarrow> string \<Rightarrow> string list" where
  "split_on c [] = [[]]"
| "split_on c (x # xs) =
     (if x = c then [] # split_on c xs
      else (case split_on c xs of w # ws \<Rightarrow> (x # w) # ws | [] \<Rightarrow> [[x]]))"

definition path_parts :: "string \<Rightarrow> path" where
  "path_parts s = filter (\<lambda>c. c \<noteq> [] \<and> c \<noteq> ''.'') (split_on CHR ''/'' s)"

definition joinpath :: "path \<Rightarrow> string \<Rightarrow> path" where
  "joinpath p s = (if s \<noteq> [] \<and> hd s = CHR ''/'' then path_parts s else p @ path_parts s)"

definition name_of :: "path \<Rightarrow> string" where
  "name_of p = (if p = [] then [] else last p)"

definition parent :: "path \<Rightarrow> path" where
  "parent p = butlast p"

text \<open>
  \<^verbatim>\<open>PurePath.suffix\<close>: the name from its last dot on, when that dot is neither the first
  nor the last character of the name; else the empty text. \<^verbatim>\<open>with_suffix\<close> replaces this
  suffix by the new one, or appends the new one when there is none; it raises
  \<^verbatim>\<open>ValueError\<close> on an empty name.
\<close>

fun rfind :: "char \<Rightarrow> string \<Rightarrow> nat option" where
  "rfind c [] = None"
| "rfind c (x # xs) =
     (case rfind c xs of
        Some i \<Rightarrow> Some (Suc i)
      | None \<Rightarrow> if x = c then Some 0 else None)"

definition suffix_of :: "string \<Rightarrow> string" where
  "suffix_of name =
     (case rfind CHR ''.'' name of
        None \<Rightarrow> []
      | Some i \<Rightarrow> if 0 < i \<and> i < length name - 1 then drop i name else [])"

definition with_suffix :: "path \<Rightarrow> string \<Rightarrow> error + path" where
  "with_suffix p sfx =
     (if name_of p = [] then Inl ValueError
      else let name = name_of p; old_suffix = suffix_of name
           in Inr (butlast p @
                [if old_suffix = [] then name @ sfx
                 else take (length name - length old_suffix) name @ sfx]))"

text \<open>
  The text \<^verbatim>\<open>json.dump(value, f, indent=2)\<close> writes; its length is the size of the file
  written.
\<close>

definition json_char :: "char \<Rightarrow> string" where
  "json_char c =
     (if c = CHR 0x22 then [CHR 0x5C, CHR 0x22]
      else if c = CHR 0x5C then [CHR 0x5C, CHR 0x5C]
      else if c = CHR 0x08 then [CHR 0x5C, CHR ''b'']
      else if c = CHR 0x0C then [CHR 0x5C, CHR ''f'']
      else if c = CHR 0x0A then [CHR 0x5C, CHR ''n'']
      else if c = CHR 0x0D then [CHR 0x5C, CHR ''r'']
      else if c = CHR 0x09 then [CHR 0x5C, CHR ''t'']
      else if 32 \<le> (of_char c :: nat) \<and> (of_char c :: nat) < 127 then [c]
      else [CHR 0x5C, CHR ''u'', CHR ''0'', CHR ''0'',
            hex_digit (of_char c div 16), hex_digit (of_char c mod 16)])"

definition json_str :: "string \<Rightarrow> string" where
  "json_str s = [CHR 0x22] @ concat (map json_char s) @ [CHR 0x22]"

definition newline_indent :: "nat \<Rightarrow> string" where
  "newline_indent level = CHR 0x0A # replicate (2 * level) CHR '' ''"

fun dumps :: "nat \<Rightarrow> json \<Rightarrow> string" where
  "dumps level JNull = ''null''"
| "dumps level (JBool b) = (if b then ''true'' else ''false'')"
| "dumps level (JInt i) = str_int i"
| "dumps level (JStr s) = json_str s"
| "dumps level (JList xs) =
     (if xs = [] then ''[]''
      else ''['' @ newline_indent (Suc level)
           @ join ('','' @ newline_indent (Suc level)) (map (dumps (Suc level)) xs)
           @ newline_indent level @ '']'')"
| "dumps level (JDict kvs) =
     (if kvs = [] then ''{}''
      else ''{'' @ newline_indent (Suc level)
           @ join ('','' @ newline_indent (Suc level))
               (map (\<lambda>kv. json_str (fst kv) @ '': '' @ dumps (Suc level) (snd kv)) kvs)
           @ newline_indent level @ ''}'')"

text \<open>
  A node of the file system is a directory, a file whose bytes are not JSON, or a file
  whose text parses to a JSON value; each has a size and a modification time (in
  microseconds, on the axis of \<^verbatim>\<open>datetime.now()\<close>). The file system is an association
  list from paths to nodes; the root is a directory that is always there.
\<close>

datatype kind = Dir | Opaque | Document json

record node =
  kind :: kind
  st_size :: nat
  st_mtime :: int

type_synonym fs = "(path \<times> node) list"

definition exists_path :: "fs \<Rightarrow> path \<Rightarrow> bool" where
  "exists_path fs p = (p = [] \<or> map_of fs p \<noteq> None)"

definition is_dir :: "fs \<Rightarrow> path \<Rightarrow> bool" where
  "is_dir fs p = (p = [] \<or> (case map_of fs p of Some n \<Rightarrow> kind n = Dir | None \<Rightarrow> False))"

definition children :: "fs \<Rightarrow> path \<Rightarrow> path list" where
  "children fs p = filter (\<lambda>q. q \<noteq> [] \<and> butlast q = p) (map fst fs)"

text \<open>\<^verbatim>\<open>stat\<close> of a path that is not there raises.\<close>

definition stat :: "fs \<Rightarrow> path \<Rightarrow> error + node" where
  "stat fs p = (case map_of fs p of None \<Rightarrow> Inl OSError | Some n \<Rightarrow> Inr n)"

text \<open>
  \<^verbatim>\<open>os.rename\<close> as POSIX has it: the source must be there and the target's directory
  must be a directory; a file replaces a file but not a directory; a directory moves with
  all that is below it, onto nothing or onto an empty directory, and never into itself.
\<close>

definition move_tree :: "path \<Rightarrow> path \<Rightarrow> fs \<Rightarrow> fs" where
  "move_tree src dst fs =
     map (\<lambda>(p, n). if prefix src p then (dst @ drop (length src) p, n) else (p, n)) fs"

definition rename :: "fs \<Rightarrow> path \<Rightarrow> path \<Rightarrow> error + fs" where
  "rename fs src dst =
     (case (if src = [] then None else map_of fs src) of
        None \<Rightarrow> Inl OSError
      | Some n \<Rightarrow>
          if dst = [] \<or> \<not> is_dir fs (parent dst) then Inl OSError
          else if src = dst then Inr fs
          else if kind n \<noteq> Dir then
            (if is_dir fs dst then Inl OSError
             else Inr (AList.update dst n (AList.delete src fs)))
          else if prefix src dst then Inl OSError
          else (case map_of fs dst of
                  None \<Rightarrow> Inr (move_tree src dst fs)
                | Some m \<Rightarrow>
                    if kind m \<noteq> Dir \<or> children fs dst \<noteq> [] then Inl OSError
                    else Inr (move_tree src dst (AList.delete dst fs))))"


text \<open>
  \<^verbatim>\<open>open(p, 'w')\<close> followed by \<^verbatim>\<open>json.dump(value, f, indent=2)\<close>: the directory of \<open>p\<close> must
  be there and \<open>p\<close> must not be a directory; the file is created or replaced.
\<close>

definition write_json :: "fs \<Rightarrow> path \<Rightarrow> json \<Rightarrow> int \<Rightarrow> error + fs" where
  "write_json fs p v clock =
     (if p = [] \<or> \<not> is_dir fs (parent p) \<or> is_dir fs p then Inl OSError
      else Inr (AList.update p \<lparr>kind = Document v, st_size = length (dumps 0 v), st_mtime = clock\<rparr> fs))"

text \<open>\<^verbatim>\<open>open(p, 'r')\<close> followed by \<^verbatim>\<open>json.load(f)\<close>.\<close>

definition read_json :: "fs \<Rightarrow> path \<Rightarrow> error + json" where
  "read_json fs p =
     (case map_of fs p of
        None \<Rightarrow> Inl OSError
      | Some n \<Rightarrow> (case kind n of Dir \<Rightarrow> Inl OSError | Opaque \<Rightarrow> Inl JSONDecodeError | Document v \<Rightarrow> Inr v))"



text \<open>
  \<^verbatim>\<open>directory.glob("*.info")\<close>: the entries of the directory whose name ends in
  \<^verbatim>\<open>.info\<close>, hidden ones too.
\<close>

definition glob_info :: "fs \<Rightarrow> path \<Rightarrow> path list" where
  "glob_info fs dir = filter (\<lambda>q. suffix ''.info'' (name_of q)) (children fs dir)"

section \<open>The quarantine manager (class QuarantineManager)\<close>

text \<open>
  The world of the manager: the files, and what was printed. Every method catches its
  exceptions, prints one line and answers \<^verbatim>\<open>False\<close>; what it had done to the files before
  the exception stays done.
\<close>

datatype notice =
    Error_quarantining_file error
  | Error_reading_quarantine_info error
  | Error_restoring_file error
  | Error_deleting_quarantined_file error
  | Error_during_cleanup error

record world =
  files :: fs
  printed :: "notice list"

definition say :: "notice \<Rightarrow> world \<Rightarrow> world" where
  "say m w = w\<lparr>printed := printed w @ [m]\<rparr>"

text \<open>
  \<^verbatim>\<open>quarantine_file(source_path, threat_name)\<close>. \<open>timestamp\<close> is the text of
  \<^verbatim>\<open>datetime.now().strftime("%Y%m%d_%H%M%S")\<close> and \<open>clock\<close> the time the sidecar is
  written at.
\<close>

definition quarantine_file ::
  "path \<Rightarrow> string \<Rightarrow> int \<Rightarrow> path \<Rightarrow> string \<Rightarrow> world \<Rightarrow> bool \<times> world" where
  "quarantine_file quarantine_path timestamp clock source threat_name w =
     (if \<not> exists_path (files w) source then (False, w)
      else
        let quarantine_name = timestamp @ ''_'' @ name_of source @ ''_'' @ threat_name;
            qfile = joinpath quarantine_path quarantine_name
        in case rename (files w) source qfile of
             Inl e \<Rightarrow> (False, say (Error_quarantining_file e) w)
           | Inr fs1 \<Rightarrow>
               (case with_suffix qfile ''.info'' of
                  Inl e \<Rightarrow> (False, say (Error_quarantining_file e) (w\<lparr>files := fs1\<rparr>))
                | Inr info_file \<Rightarrow>
                    (case stat fs1 qfile of
                       Inl e \<Rightarrow> (False, say (Error_quarantining_file e) (w\<lparr>files := fs1\<rparr>))
                     | Inr st \<Rightarrow>
                         let info = JDict
                               [(''original_path'', JStr (path_str source)),
                                (''threat_name'', JStr threat_name),
                                (''quarantine_date'', JStr timestamp),
                                (''file_size'', JInt (int (st_size st)))]
                         in case write_json fs1 info_file info clock of
                              Inl e \<Rightarrow> (False, say (Error_quarantining_file e) (w\<lparr>files := fs1\<rparr>))
                            | Inr fs2 \<Rightarrow> (True, w\<lparr>files := fs2\<rparr>))))"

text \<open>
  \<^verbatim>\<open>list_quarantined_files()\<close>: one turn of the loop reads a sidecar, strips its suffix
  and keeps the record when a file stands at the stripped path. A sidecar that does not
  hold a dictionary cannot take the \<^verbatim>\<open>quarantine_file\<close> key.
\<close>

definition list_entry :: "fs \<Rightarrow> path \<Rightarrow> error + json option" where
  "list_entry fs info_file =
     (case read_json fs info_file of
        Inl e \<Rightarrow> Inl e
      | Inr info \<Rightarrow>
          (case with_suffix info_file [] of
             Inl e \<Rightarrow> Inl e
           | Inr qfile \<Rightarrow>
               if exists_path fs qfile then
                 (case info of
                    JDict d \<Rightarrow>
                      Inr (Some (JDict (AList.update ''quarantine_file''
                                          (JStr (path_str qfile)) d)))
                  | _ \<Rightarrow> Inl TypeError)
               else Inr None))"

fun list_loop :: "path list \<Rightarrow> json list \<times> world \<Rightarrow> json list \<times> world" where
  "list_loop [] acc = acc"
| "list_loop (info_file # rest) (quarantined, w) =
     list_loop rest
       (case list_entry (files w) info_file of
          Inl e \<Rightarrow> (quarantined, say (Error_reading_quarantine_info e) w)
        | Inr None \<Rightarrow> (quarantined, w)
        | Inr (Some info) \<Rightarrow> (quarantined @ [info], w))"

definition list_quarantined_files :: "path \<Rightarrow> world \<Rightarrow> json list \<times> world" where
  "list_quarantined_files quarantine_path w =
     list_loop (glob_info (files w) quarantine_path) ([], w)"












section \<open>Quarantine entries and example worlds\<close>






text \<open>
  Three worlds to run the methods on: a home directory with two files beside an empty
  quarantine directory; a quarantine directory holding one entry with a plain name;
  and one holding what \<^verbatim>\<open>quarantine_file\<close> leaves for a file name with an extension.
\<close>

definition home_world :: world where
  "home_world =
     \<lparr>files =
        [([''q''], \<lparr>kind = Dir, st_size = 0, st_mtime = 0\<rparr>),
         ([''home''], \<lparr>kind = Dir, st_size = 0, st_mtime = 0\<rparr>),
         ([''home'', ''virus.exe''], \<lparr>kind = Opaque, st_size = 3, st_mtime = 5\<rparr>),
         ([''home'', ''plain''], \<lparr>kind = Opaque, st_size = 7, st_mtime = 5\<rparr>)],
      printed = []\<rparr>"



section \<open>Merging loaded settings with the defaults\<close>

lemma merge_settings_Cons:
  "merge_settings result ((key, v) # rest) = merge_settings (merge_entry result key v) rest"
  by (cases v) (simp_all add: merge_entry_def split: option.splits json.splits)

lemma map_of_merge_entry:
  "map_of (merge_entry result key v) k =
     (if k = key then
        (case (map_of result key, v) of
           (Some (JDict d), JDict l) \<Rightarrow> Some (JDict (merge_settings d l))
         | _ \<Rightarrow> Some v)
      else map_of result k)"
  by (simp add: merge_entry_def update_conv' split: option.splits json.splits)

lemma map_of_merge_settings:
  "distinct (map fst loaded) \<Longrightarrow>
   map_of (merge_settings result loaded) k =
     (case map_of loaded k of
        None \<Rightarrow> map_of result k
      | Some v \<Rightarrow>
          (case (map_of result k, v) of
             (Some (JDict d), JDict l) \<Rightarrow> Some (JDict (merge_settings d l))
           | _ \<Rightarrow> Some v))"
proof (induction loaded arbitrary: result)
  case Nil
  show ?case by simp
next
  case (Cons kv rest)
  obtain key v where kv: "kv = (key, v)" by (cases kv)
  from Cons.prems kv have d: "distinct (map fst rest)" and none: "map_of rest key = None"
    by (auto simp: map_of_eq_None_iff)
  have step: "map_of (merge_settings result (kv # rest)) k =
      (case map_of rest k of
         None \<Rightarrow> map_of (merge_entry result key v) k
       | Some w \<Rightarrow>
          (case (map_of (merge_entry result key v) k, w) of
             (Some (JDict d), JDict l) \<Rightarrow> Some (JDict (merge_settings d l))
           | _ \<Rightarrow> Some w))"
    unfolding kv merge_settings_Cons by (rule Cons.IH [OF d])
  show ?case
  proof (cases "k = key")
    case True
    with step none show ?thesis by (simp add: kv map_of_merge_entry)
  next
    case False
    with step show ?thesis
      by (cases "map_of rest k") (simp_all add: kv map_of_merge_entry)
  qed
qed

lemma keys_merge_entry:
  "fst ` set (merge_entry result key v) = insert key (fst ` set result)"
  by (simp add: merge_entry_def dom_update[symmetric] dom_map_of_conv_image_fst[symmetric]
        update_conv' split: option.splits json.splits)

lemma keys_merge_settings:
  "fst ` set (merge_settings result loaded) = fst ` set result \<union> fst ` set loaded"
proof (induction loaded arbitrary: result)
  case Nil
  show ?case by simp
next
  case (Cons kv rest)
  obtain key v where kv: "kv = (key, v)" by (cases kv)
  show ?case unfolding kv merge_settings_Cons Cons.IH keys_merge_entry by auto
qed

text \<open>
  Claim C1. For every loaded dictionary (a Python dictionary: no key twice), the merge
  with the defaults has every key of the defaults; where both hold a dictionary under a
  key, the result holds their recursive merge; a loaded value that is not a dictionary
  is taken as it is, and so is any loaded value whose key the defaults lack or hold
  with a value that is not a dictionary; a key the loaded dictionary lacks keeps its
  default. \<^verbatim>\<open>load_settings\<close> on a file holding a dictionary returns this merge with the
  hard-coded defaults.
\<close>

theorem merge_settings_fills_defaults:
  assumes "distinct (map fst loaded)"
  shows "fst ` set dflt \<subseteq> fst ` set (merge_settings dflt loaded)
    \<and> (\<forall>k d l. map_of dflt k = Some (JDict d) \<and> map_of loaded k = Some (JDict l)
          \<longrightarrow> map_of (merge_settings dflt loaded) k = Some (JDict (merge_settings d l)))
    \<and> (\<forall>k v. map_of loaded k = Some v \<and> \<not> is_dict v
          \<longrightarrow> map_of (merge_settings dflt loaded) k = Some v)
    \<and> (\<forall>k v. map_of loaded k = Some v \<and> (\<forall>d. map_of dflt k \<noteq> Some (JDict d))
          \<longrightarrow> map_of (merge_settings dflt loaded) k = Some v)
    \<and> (\<forall>k. map_of loaded k = None
          \<longrightarrow> map_of (merge_settings dflt loaded) k = map_of dflt k)
    \<and> (config_file e = Doc (JDict loaded)
          \<longrightarrow> fst (load_settings home e) = merge_settings (default_settings home) loaded)"
proof (intro conjI allI impI)
  show "fst ` set dflt \<subseteq> fst ` set (merge_settings dflt loaded)"
    by (simp add: keys_merge_settings)
next
  fix k d l
  assume "map_of dflt k = Some (JDict d) \<and> map_of loaded k = Some (JDict l)"
  then show "map_of (merge_settings dflt loaded) k = Some (JDict (merge_settings d l))"
    by (simp add: map_of_merge_settings [OF assms])
next
  fix k v
  assume "map_of loaded k = Some v \<and> \<not> is_dict v"
  then show "map_of (merge_settings dflt loaded) k = Some v"
    by (cases v) (simp_all add: map_of_merge_settings [OF assms] is_dict_def split: option.splits json.splits)
next
  fix k v
  assume "map_of loaded k = Some v \<and> (\<forall>d. map_of dflt k \<noteq> Some (JDict d))"
  then show "map_of (merge_settings dflt loaded) k = Some v"
    by (simp add: map_of_merge_settings [OF assms] split: option.splits json.splits)
next
  fix k
  assume "map_of loaded k = None"
  then show "map_of (merge_settings dflt loaded) k = map_of dflt k"
    by (simp add: map_of_merge_settings [OF assms])
next
  assume "config_file e = Doc (JDict loaded)"
  then show "fst (load_settings home e) = merge_settings (default_settings home) loaded"
    by (simp add: load_settings_def)
qed

theorem merge_settings_fills_defaults_witness:
  "distinct (map fst [(''scan_options'', JDict [(''scan_pdf'', JBool False)]), (''extra'', JInt 7)])
   \<and> map_of (merge_settings (default_settings ''/home/u'')
         [(''scan_options'', JDict [(''scan_pdf'', JBool False)]), (''extra'', JInt 7)]) ''extra''
       = Some (JInt 7)
   \<and> map_of (merge_settings (default_settings ''/home/u'')
         [(''scan_options'', JDict [(''scan_pdf'', JBool False)]), (''extra'', JInt 7)]) ''scan_options''
       = Some (JDict
         [(''scan_archives'', JBool True),
          (''scan_pdf'', JBool False),
          (''scan_ole2'', JBool True),
          (''scan_html'', JBool True),
          (''scan_pe'', JBool True),
          (''scan_elf'', JBool True),
          (''detect_pua'', JBool False),
          (''scan_hidden'', JBool False),
          (''max_file_size'', JInt 20),
          (''max_recursion'', JInt 15)])"
  using merge_settings_fills_defaults
    [of "[(''scan_options'', JDict [(''scan_pdf'', JBool False)]), (''extra'', JInt 7)]"
        "default_settings ''/home/u''"]
  by (simp add: default_settings_def is_dict_def)

section \<open>Loading, reading and writing settings\<close>



text \<open>
  Claim C10, as amended. \<^verbatim>\<open>get\<close> never changes the settings mapping. \<^verbatim>\<open>get(category)\<close>
  always returns: the stored value, or the empty mapping for an absent category.
  \<^verbatim>\<open>get(category, key)\<close> returns \<^verbatim>\<open>None\<close> for an absent category and for a key absent
  from a category that is a mapping, and it returns a value whenever the category is
  absent or holds a mapping. The last theorem of this block shows why the condition is
  needed: a settings file may store a number under a category, and \<^verbatim>\<open>get\<close> with a key
  then raises \<^verbatim>\<open>AttributeError\<close>.
\<close>

theorem get_setting_read_only_total_on_dicts:
  "snd (get_setting s category key) = s
   \<and> fst (get_setting s category None) = Inr (category_or_empty s category)
   \<and> (map_of s category = None
        \<longrightarrow> fst (get_setting s category None) = Inr (JDict [])
          \<and> fst (get_setting s category (Some k)) = Inr JNull)
   \<and> (map_of s category = Some (JDict c) \<and> map_of c k = None
        \<longrightarrow> fst (get_setting s category (Some k)) = Inr JNull)
   \<and> (is_dict (category_or_empty s category)
        \<longrightarrow> (\<exists>v. fst (get_setting s category key) = Inr v))"
  by (auto simp: get_setting_def category_or_empty_def is_dict_def
        split: option.splits json.splits)

theorem get_setting_read_only_total_on_dicts_witness:
  "is_dict (category_or_empty (default_settings ''/home/u'') ''updates'')
   \<and> fst (get_setting (default_settings ''/home/u'') ''updates'' (Some ''no_such_key'')) = Inr JNull
   \<and> fst (get_setting (default_settings ''/home/u'') ''no_such_category'' (Some ''k'')) = Inr JNull
   \<and> fst (get_setting (default_settings ''/home/u'') ''no_such_category'' None) = Inr (JDict [])"
  using get_setting_read_only_total_on_dicts
      [of "default_settings ''/home/u''" "''updates''" "Some ''no_such_key''" "''no_such_key''"
          "[(''auto_update'', JBool True), (''update_frequency'', JStr ''daily''),
            (''check_on_startup'', JBool True)]"]
    get_setting_read_only_total_on_dicts
      [of "default_settings ''/home/u''" "''no_such_category''" "None" "''k''" "[]"]
  by (simp add: default_settings_def category_or_empty_def is_dict_def)

theorem get_setting_raises_on_non_dict_category:
  "fst (get_setting
         (fst (load_settings ''/home/u''
                \<lparr>config_file = Doc (JDict [(''scan_options'', JInt 5)]), writable = True, out = []\<rparr>))
         ''scan_options'' (Some ''scan_pdf''))
     = Inl AttributeError"
  by (simp add: load_settings_def get_setting_def category_or_empty_def default_settings_def)






section \<open>The flags of the scanner command\<close>

lemma build_scan_command_list:
  "build_scan_command opts path =
     [''clamscan'',
      yes_no ''--scan-archive'' (toggle opts ''scan_archives'' True),
      yes_no ''--scan-pdf'' (toggle opts ''scan_pdf'' True),
      yes_no ''--scan-ole2'' (toggle opts ''scan_ole2'' True),
      yes_no ''--scan-html'' (toggle opts ''scan_html'' True),
      yes_no ''--scan-pe'' (toggle opts ''scan_pe'' True),
      yes_no ''--scan-elf'' (toggle opts ''scan_elf'' True),
      yes_no ''--detect-pua'' (toggle opts ''detect_pua'' False)]
     @ (if toggle opts ''scan_hidden'' False then [] else [exclude_hidden])
     @ [''--max-filesize='' @ py_str (opt_get opts ''max_file_size'' (JInt 20)) @ ''M'',
        ''--max-dir-recursion='' @ py_str (opt_get opts ''max_recursion'' (JInt 15)),
        ''--recursive'', ''--infected'', ''--bell'', path]"
  by (simp add: build_scan_command_def yes_no_def toggle_def exclude_hidden_def)


lemma butlast_build_scan_command:
  "butlast (build_scan_command opts path) =
     [''clamscan'',
      yes_no ''--scan-archive'' (toggle opts ''scan_archives'' True),
      yes_no ''--scan-pdf'' (toggle opts ''scan_pdf'' True),
      yes_no ''--scan-ole2'' (toggle opts ''scan_ole2'' True),
      yes_no ''--scan-html'' (toggle opts ''scan_html'' True),
      yes_no ''--scan-pe'' (toggle opts ''scan_pe'' True),
      yes_no ''--scan-elf'' (toggle opts ''scan_elf'' True),
      yes_no ''--detect-pua'' (toggle opts ''detect_pua'' False)]
     @ (if toggle opts ''scan_hidden'' False then [] else [exclude_hidden])
     @ [''--max-filesize='' @ py_str (opt_get opts ''max_file_size'' (JInt 20)) @ ''M'',
        ''--max-dir-recursion='' @ py_str (opt_get opts ''max_recursion'' (JInt 15)),
        ''--recursive'', ''--infected'', ''--bell'']"
  unfolding build_scan_command_list by (simp add: butlast_append)


lemma eq_yes_no:
  "(x = yes_no f b) = ((b \<and> x = f @ ''=yes'') \<or> (\<not> b \<and> x = f @ ''=no''))"
  by (cases b) (simp_all add: yes_no_def)

lemma flag_scan_archives:
  "(''--scan-archive=yes'' \<in> set (butlast (build_scan_command opts path))) = toggle opts ''scan_archives'' True"
  "(''--scan-archive=no'' \<in> set (butlast (build_scan_command opts path))) = (\<not> toggle opts ''scan_archives'' True)"
  unfolding butlast_build_scan_command
  by (simp_all add: eq_yes_no exclude_hidden_def)

lemma flag_scan_pdf:
  "(''--scan-pdf=yes'' \<in> set (butlast (build_scan_command opts path))) = toggle opts ''scan_pdf'' True"
  "(''--scan-pdf=no'' \<in> set (butlast (build_scan_command opts path))) = (\<not> toggle opts ''scan_pdf'' True)"
  unfolding butlast_build_scan_command
  by (simp_all add: eq_yes_no exclude_hidden_def)

lemma flag_scan_ole2:
  "(''--scan-ole2=yes'' \<in> set (butlast (build_scan_command opts path))) = toggle opts ''scan_ole2'' True"
  "(''--scan-ole2=no'' \<in> set (butlast (build_scan_command opts path))) = (\<not> toggle opts ''scan_ole2'' True)"
  unfolding butlast_build_scan_command
  by (simp_all add: eq_yes_no exclude_hidden_def)

lemma flag_scan_html:
  "(''--scan-html=yes'' \<in> set (butlast (build_scan_command opts path))) = toggle opts ''scan_html'' True"
  "(''--scan-html=no'' \<in> set (butlast (build_scan_command opts path))) = (\<not> toggle opts ''scan_html'' True)"
  unfolding butlast_build_scan_command
  by (simp_all add: eq_yes_no exclude_hidden_def)

lemma flag_scan_pe:
  "(''--scan-pe=yes'' \<in> set (butlast (build_scan_command opts path))) = toggle opts ''scan_pe'' True"
  "(''--scan-pe=no'' \<in> set (butlast (build_scan_command opts path))) = (\<not> toggle opts ''scan_pe'' True)"
  unfolding butlast_build_scan_command
  by (simp_all add: eq_yes_no exclude_hidden_def)

lemma flag_scan_elf:
  "(''--scan-elf=yes'' \<in> set (butlast (build_scan_command opts path))) = toggle opts ''scan_elf'' True"
  "(''--scan-elf=no'' \<in> set (butlast (build_scan_command opts path))) = (\<not> toggle opts ''scan_elf'' True)"
  unfolding butlast_build_scan_command
  by (simp_all add: eq_yes_no exclude_hidden_def)

lemma flag_detect_pua:
  "(''--detect-pua=yes'' \<in> set (butlast (build_scan_command opts path))) = toggle opts ''detect_pua'' False"
  "(''--detect-pua=no'' \<in> set (butlast (build_scan_command opts path))) = (\<not> toggle opts ''detect_pua'' False)"
  unfolding butlast_build_scan_command
  by (simp_all add: eq_yes_no exclude_hidden_def)

lemma flag_exclude_hidden:
  "(exclude_hidden \<in> set (butlast (build_scan_command opts path))) = (\<not> toggle opts ''scan_hidden'' False)"
  unfolding butlast_build_scan_command
  by (simp add: eq_yes_no exclude_hidden_def)

lemma flag_limits:
  "''--max-filesize='' @ py_str (opt_get opts ''max_file_size'' (JInt 20)) @ ''M''
     \<in> set (butlast (build_scan_command opts path))"
  "''--max-dir-recursion='' @ py_str (opt_get opts ''max_recursion'' (JInt 15))
     \<in> set (butlast (build_scan_command opts path))"
  unfolding butlast_build_scan_command by simp_all

lemma standard_options_last:
  "drop (length (build_scan_command opts path) - 4) (build_scan_command opts path)
     = [''--recursive'', ''--infected'', ''--bell'', path]"
  unfolding build_scan_command_list by simp

lemma toggle_lookup:
  "toggle opts name dflt = (case map_of opts name of None \<Rightarrow> dflt | Some v \<Rightarrow> truthy v)"
  by (simp add: toggle_def opt_get_def split: option.splits)

lemma build_scan_command_defaults:
  "build_scan_command [] path =
     [''clamscan'', ''--scan-archive=yes'', ''--scan-pdf=yes'', ''--scan-ole2=yes'',
      ''--scan-html=yes'', ''--scan-pe=yes'', ''--scan-elf=yes'', ''--detect-pua=no'',
      exclude_hidden, ''--max-filesize=20M'', ''--max-dir-recursion=15'',
      ''--recursive'', ''--infected'', ''--bell'', path]"
  by (simp add: build_scan_command_def exclude_hidden_def opt_get_def str_int_def)

text \<open>
  Claim C5. In the command that \<^verbatim>\<open>build_scan_command\<close> returns, the words before the
  target path hold, for each of the seven switches, the \<^verbatim>\<open>=yes\<close> form exactly when the
  option is true (in Python's sense, with the stated default when the key is absent) and
  the \<^verbatim>\<open>=no\<close> form exactly when it is not; the exclusion of hidden directories is there
  exactly when \<^verbatim>\<open>scan_hidden\<close> is false; the two limits are there with the text of the
  configured values; the last four words are \<^verbatim>\<open>--recursive\<close>, \<^verbatim>\<open>--infected\<close>, \<^verbatim>\<open>--bell\<close>
  and the path. With no option set the command is the one of the defaults: six scan
  switches on, \<^verbatim>\<open>detect_pua\<close> off, 20 MB and 15 levels.
\<close>

theorem build_scan_command_flags:
  "hd (build_scan_command opts path) = ''clamscan''
   \<and> (''--scan-archive=yes'' \<in> set (butlast (build_scan_command opts path))) = toggle opts ''scan_archives'' True
   \<and> (''--scan-archive=no'' \<in> set (butlast (build_scan_command opts path))) = (\<not> toggle opts ''scan_archives'' True)
   \<and> (''--scan-pdf=yes'' \<in> set (butlast (build_scan_command opts path))) = toggle opts ''scan_pdf'' True
   \<and> (''--scan-pdf=no'' \<in> set (butlast (build_scan_command opts path))) = (\<not> toggle opts ''scan_pdf'' True)
   \<and> (''--scan-ole2=yes'' \<in> set (butlast (build_scan_command opts path))) = toggle opts ''scan_ole2'' True
   \<and> (''--scan-ole2=no'' \<in> set (butlast (build_scan_command opts path))) = (\<not> toggle opts ''scan_ole2'' True)
   \<and> (''--scan-html=yes'' \<in> set (butlast (build_scan_command opts path))) = toggle opts ''scan_html'' True
   \<and> (''--scan-html=no'' \<in> set (butlast (build_scan_command opts path))) = (\<not> toggle opts ''scan_html'' True)
   \<and> (''--scan-pe=yes'' \<in> set (butlast (build_scan_command opts path))) = toggle opts ''scan_pe'' True
   \<and> (''--scan-pe=no'' \<in> set (butlast (build_scan_command opts path))) = (\<not> toggle opts ''scan_pe'' True)
   \<and> (''--scan-elf=yes'' \<in> set (butlast (build_scan_command opts path))) = toggle opts ''scan_elf'' True
   \<and> (''--scan-elf=no'' \<in> set (butlast (build_scan_command opts path))) = (\<not> toggle opts ''scan_elf'' True)
   \<and> (''--detect-pua=yes'' \<in> set (butlast (build_scan_command opts path))) = toggle opts ''detect_pua'' False
   \<and> (''--detect-pua=no'' \<in> set (butlast (build_scan_command opts path))) = (\<not> toggle opts ''detect_pua'' False)
   \<and> (exclude_hidden \<in> set (butlast (build_scan_command opts path)))
        = (\<not> toggle opts ''scan_hidden'' False)
   \<and> ''--max-filesize='' @ py_str (opt_get opts ''max_file_size'' (JInt 20)) @ ''M''
        \<in> set (butlast (build_scan_command opts path))
   \<and> ''--max-dir-recursion='' @ py_str (opt_get opts ''max_recursion'' (JInt 15))
        \<in> set (butlast (build_scan_command opts path))
   \<and> drop (length (build_scan_command opts path) - 4) (build_scan_command opts path)
        = [''--recursive'', ''--infected'', ''--bell'', path]
   \<and> toggle opts name dflt = (case map_of opts name of None \<Rightarrow> dflt | Some v \<Rightarrow> truthy v)
   \<and> truthy (JBool b) = b
   \<and> py_str (JInt 20) = ''20'' \<and> py_str (JInt 15) = ''15''
   \<and> build_scan_command [] path =
     [''clamscan'', ''--scan-archive=yes'', ''--scan-pdf=yes'', ''--scan-ole2=yes'',
      ''--scan-html=yes'', ''--scan-pe=yes'', ''--scan-elf=yes'', ''--detect-pua=no'',
      exclude_hidden, ''--max-filesize=20M'', ''--max-dir-recursion=15'',
      ''--recursive'', ''--infected'', ''--bell'', path]"
proof -
  have h: "hd (build_scan_command opts path) = ''clamscan''"
    unfolding build_scan_command_list by simp
  have s: "py_str (JInt 20) = ''20'' \<and> py_str (JInt 15) = ''15''"
    by (simp add: str_int_def)
  show ?thesis
    using h s flag_scan_archives flag_scan_pdf flag_scan_ole2 flag_scan_html flag_scan_pe flag_scan_elf flag_detect_pua flag_exclude_hidden flag_limits standard_options_last
      toggle_lookup [of opts name dflt] build_scan_command_defaults [of path]
    by simp
qed

theorem build_scan_command_flags_witness:
  "build_scan_command
     [(''scan_pdf'', JBool False), (''scan_hidden'', JBool True), (''max_file_size'', JInt 100)]
     ''/home/u''
   = [''clamscan'', ''--scan-archive=yes'', ''--scan-pdf=no'', ''--scan-ole2=yes'',
      ''--scan-html=yes'', ''--scan-pe=yes'', ''--scan-elf=yes'', ''--detect-pua=no'',
      ''--max-filesize=100M'', ''--max-dir-recursion=15'',
      ''--recursive'', ''--infected'', ''--bell'', ''/home/u'']
   \<and> ''--scan-pdf=no'' \<in> set (butlast (build_scan_command
     [(''scan_pdf'', JBool False), (''scan_hidden'', JBool True), (''max_file_size'', JInt 100)]
     ''/home/u''))"
  using build_scan_command_flags
    [of "[(''scan_pdf'', JBool False), (''scan_hidden'', JBool True), (''max_file_size'', JInt 100)]"
        "''/home/u''" "''scan_pdf''" True True]
  by (simp add: build_scan_command_def opt_get_def str_int_def toggle_def)

section \<open>Quarantining, listing and restoring\<close>

text \<open>
  Claim C3, at an input where the code departs from it. The file \<^verbatim>\<open>/home/virus.exe\<close> is
  quarantined as \<^verbatim>\<open>Eicar-Test\<close>: it is moved to
  \<^verbatim>\<open>/q/20240101_120000_virus.exe_Eicar-Test\<close>, but \<^verbatim>\<open>with_suffix\<close> takes everything from the
  last dot of that name on for a suffix and replaces it, so the sidecar is
  \<^verbatim>\<open>/q/20240101_120000_virus.info\<close>. Listing strips \<^verbatim>\<open>.info\<close> from the sidecar, finds no
  file at \<^verbatim>\<open>/q/20240101_120000_virus\<close>, and returns no entry.
\<close>

theorem quarantine_file_sidecar_loses_file:
  "quarantine_file [''q''] ''20240101_120000'' 100 [''home'', ''virus.exe''] ''Eicar-Test'' home_world
     = (True,
        \<lparr>files =
           [([''q''], \<lparr>kind = Dir, st_size = 0, st_mtime = 0\<rparr>),
            ([''home''], \<lparr>kind = Dir, st_size = 0, st_mtime = 0\<rparr>),
            ([''home'', ''plain''], \<lparr>kind = Opaque, st_size = 7, st_mtime = 5\<rparr>),
            ([''q'', ''20240101_120000_virus.exe_Eicar-Test''],
             \<lparr>kind = Opaque, st_size = 3, st_mtime = 5\<rparr>),
            ([''q'', ''20240101_120000_virus.info''],
             \<lparr>kind = Document (JDict
                 [(''original_path'', JStr ''/home/virus.exe''),
                  (''threat_name'', JStr ''Eicar-Test''),
                  (''quarantine_date'', JStr ''20240101_120000''),
                  (''file_size'', JInt 3)]),
              st_size = 129, st_mtime = 100\<rparr>)],
         printed = []\<rparr>)
   \<and> fst (list_quarantined_files [''q'']
          (snd (quarantine_file [''q''] ''20240101_120000'' 100 [''home'', ''virus.exe'']
                  ''Eicar-Test'' home_world))) = []"
  by code_simp

text \<open>
  Claim C7 holds whenever the sidecar is written beside the quarantined file: the
  sidecar records the size of what stands at the quarantine path.
\<close>

lemma quarantine_file_records_size:
  assumes ok: "quarantine_file quarantine_path timestamp clock source threat_name w = (True, w')"
    and ws: "with_suffix
               (joinpath quarantine_path (timestamp @ ''_'' @ name_of source @ ''_'' @ threat_name))
               ''.info'' = Inr info_file"
    and ne: "info_file \<noteq>
               joinpath quarantine_path (timestamp @ ''_'' @ name_of source @ ''_'' @ threat_name)"
  shows "\<exists>n. map_of (files w')
               (joinpath quarantine_path (timestamp @ ''_'' @ name_of source @ ''_'' @ threat_name))
             = Some n
           \<and> read_json (files w') info_file = Inr (JDict
               [(''original_path'', JStr (path_str source)),
                (''threat_name'', JStr threat_name),
                (''quarantine_date'', JStr timestamp),
                (''file_size'', JInt (int (st_size n)))])"
proof -
  let ?q = "joinpath quarantine_path (timestamp @ ''_'' @ name_of source @ ''_'' @ threat_name)"
  from ok obtain fs1 where rn: "rename (files w) source ?q = Inr fs1"
    by (auto simp: quarantine_file_def Let_def split: if_splits sum.splits)
  from ok rn ws obtain n where st: "stat fs1 ?q = Inr n"
    by (auto simp: quarantine_file_def Let_def split: if_splits sum.splits)
  let ?info = "JDict
               [(''original_path'', JStr (path_str source)),
                (''threat_name'', JStr threat_name),
                (''quarantine_date'', JStr timestamp),
                (''file_size'', JInt (int (st_size n)))]"
  from ok rn ws st obtain fs2 where wr: "write_json fs1 info_file ?info clock = Inr fs2"
    and w': "w' = w\<lparr>files := fs2\<rparr>"
    by (auto simp: quarantine_file_def Let_def split: if_splits sum.splits)
  from wr have m2: "map_of fs2 = (map_of fs1)(info_file \<mapsto>
      \<lparr>kind = Document ?info, st_size = length (dumps 0 ?info), st_mtime = clock\<rparr>)"
    by (auto simp: write_json_def update_conv' split: if_splits)
  from st have "map_of fs1 ?q = Some n"
    by (auto simp: stat_def split: option.splits)
  with ne have "map_of fs2 ?q = Some n" by (simp add: m2)
  moreover have "read_json fs2 info_file = Inr ?info"
    by (simp add: read_json_def m2)
  ultimately show ?thesis by (simp add: w')
qed

text \<open>
  Claim C7, at an input where the code departs from it. A threat name that ends in
  \<^verbatim>\<open>.info\<close> makes \<^verbatim>\<open>with_suffix\<close> return the quarantine path itself, so the sidecar is
  written over the file just moved there: the sidecar records the size 7 of the moved
  file, and what stands at the quarantine path is the sidecar, of size 121.
\<close>

theorem quarantine_file_sidecar_overwrites_file:
  "quarantine_file [''q''] ''20240101_120000'' 100 [''home'', ''plain''] ''X.info'' home_world
     = (True,
        \<lparr>files =
           [([''q''], \<lparr>kind = Dir, st_size = 0, st_mtime = 0\<rparr>),
            ([''home''], \<lparr>kind = Dir, st_size = 0, st_mtime = 0\<rparr>),
            ([''home'', ''virus.exe''], \<lparr>kind = Opaque, st_size = 3, st_mtime = 5\<rparr>),
            ([''q'', ''20240101_120000_plain_X.info''],
             \<lparr>kind = Document (JDict
                 [(''original_path'', JStr ''/home/plain''),
                  (''threat_name'', JStr ''X.info''),
                  (''quarantine_date'', JStr ''20240101_120000''),
                  (''file_size'', JInt 7)]),
              st_size = 121, st_mtime = 100\<rparr>)],
         printed = []\<rparr>)"
  by code_simp











section \<open>The retention sweep\<close>













end
